theory Spec2Isabelle
  imports Complex_Main
begin

section \<open>Errors and arrays\<close>

text \<open>
  The two notebooks are Python over numpy/jax arrays. A 1-D array is a list of reals, a
  batch of 1-D arrays a list of such lists. Every exception the modelled code can raise is
  a value of \<open>error\<close>; a fallible function returns \<open>error + 'a\<close> with \<open>Inl\<close> the exception.
  Arithmetic is exact (reals), as the properties are stated in exact arithmetic.
\<close>

datatype error = IndexError | ShapeError | ValueError | ZeroDivisionError | UnboundLocalError

text \<open>A Python loop or comprehension whose body may raise: it stops at the first exception.\<close>

fun map_result :: "('a \<Rightarrow> error + 'b) \<Rightarrow> 'a list \<Rightarrow> error + 'b list" where
  "map_result f [] = Inr []"
| "map_result f (x # xs) =
     (case f x of
        Inl e \<Rightarrow> Inl e
      | Inr y \<Rightarrow> (case map_result f xs of Inl e \<Rightarrow> Inl e | Inr ys \<Rightarrow> Inr (y # ys)))"

subsection \<open>\<open>np.argmax\<close>\<close>

text \<open>
  \<open>np.argmax\<close> of a 1-D array: the index of the first occurrence of the maximum; it raises
  ValueError on an empty array. \<open>argmax_go bi bv i xs\<close> scans \<open>xs\<close> (whose first element has
  index \<open>i\<close>) with the best index \<open>bi\<close> and best value \<open>bv\<close> so far; only a strictly larger
  value replaces the best one.
\<close>

fun argmax_go :: "nat \<Rightarrow> real \<Rightarrow> nat \<Rightarrow> real list \<Rightarrow> nat" where
  "argmax_go bi bv i [] = bi"
| "argmax_go bi bv i (x # xs) =
     (if bv < x then argmax_go i x (Suc i) xs else argmax_go bi bv (Suc i) xs)"

fun argmax :: "real list \<Rightarrow> error + nat" where
  "argmax [] = Inl ValueError"
| "argmax (x # xs) = Inr (argmax_go 0 x (Suc 0) xs)"

text \<open>\<open>np.argmax(a, axis=1)\<close> of a 2-D array: the arg-max of every row.\<close>

definition argmax_axis1 :: "real list list \<Rightarrow> error + nat list" where
  "argmax_axis1 a = map_result argmax a"

subsection \<open>\<open>one_hot\<close>\<close>

text \<open>
  \<^verbatim>\<open>def one_hot(x, k, dtype=np.float32):
    return np.array(x[:, None] == np.arange(k), dtype)\<close>
  \<open>x\<close> is the 1-D array of integer labels of a batch; row \<open>i\<close> of the result compares
  \<open>x[i]\<close> with \<open>0, ..., k-1\<close> and holds 1.0 where they are equal, 0.0 elsewhere.
\<close>

definition one_hot :: "int list \<Rightarrow> nat \<Rightarrow> real list list" where
  "one_hot x k = map (\<lambda>xi. map (\<lambda>j. if xi = int j then 1 else 0) [0..<k]) x"

section \<open>The multilayer perceptron (Question3)\<close>

subsection \<open>Arrays of the network\<close>

text \<open>
  A weight matrix is a 2-D array. It keeps its number of columns next to its rows, so that
  an array of shape \<open>(0, m)\<close> still has a shape and \<open>np.dot\<close> can refuse a vector of the
  wrong length.
\<close>

datatype mat = Mat (ncols: nat) (rows: "real list list")

definition nrows :: "mat \<Rightarrow> nat" where
  "nrows w = length (rows w)"

definition shape :: "mat \<Rightarrow> nat \<times> nat" where
  "shape w = (nrows w, ncols w)"

text \<open>An array of shape \<open>(n, m)\<close> as numpy builds it: \<open>n\<close> rows of \<open>m\<close> entries each.\<close>

definition well_shaped :: "mat \<Rightarrow> bool" where
  "well_shaped w = list_all (\<lambda>r. length r = ncols w) (rows w)"

type_synonym layer = "mat \<times> real list"
type_synonym mlp_params = "layer list"

text \<open>
  \<open>np.dot(w, x)\<close> of a 2-D array of shape \<open>(n, m)\<close> and a 1-D array: every row times \<open>x\<close>;
  it raises when \<open>x\<close> does not have \<open>m\<close> entries.
\<close>

definition dot :: "mat \<Rightarrow> real list \<Rightarrow> error + real list" where
  "dot w x =
     (if ncols w = length x then Inr (map (\<lambda>r. sum_list (map2 (*) r x)) (rows w))
      else Inl ShapeError)"

text \<open>
  An elementwise operation on two 1-D arrays, with numpy's broadcasting: equal lengths, or
  one of the two of length 1 (stretched to the other); anything else raises.
\<close>

definition broadcast2 :: "(real \<Rightarrow> real \<Rightarrow> real) \<Rightarrow> real list \<Rightarrow> real list \<Rightarrow> error + real list" where
  "broadcast2 f a b =
     (if length a = length b then Inr (map2 f a b)
      else if length a = 1 then Inr (map (f (hd a)) b)
      else if length b = 1 then Inr (map (\<lambda>x. f x (hd b)) a)
      else Inl ShapeError)"

text \<open>
  Modelled from the spec: \<open>ReLU\<close> is called by \<open>relu_layer\<close> and \<open>FiniteDiffGrad\<close>, but no
  cell of the notebook defines it. The spec (4.3) names it the rectified-linear
  nonlinearity: every entry below zero becomes zero.
\<close>

definition ReLU :: "real list \<Rightarrow> real list" where
  "ReLU x = map (max 0) x"

text \<open>
  \<^verbatim>\<open>def relu_layer(params, x):
    return ReLU(np.dot(params[0], x) + params[1])\<close>
\<close>

definition relu_layer :: "layer \<Rightarrow> real list \<Rightarrow> error + real list" where
  "relu_layer params x =
     (case dot (fst params) x of
        Inl e \<Rightarrow> Inl e
      | Inr d \<Rightarrow>
          (case broadcast2 (+) d (snd params) of
             Inl e \<Rightarrow> Inl e
           | Inr s \<Rightarrow> Inr (ReLU s)))"

text \<open>
  \<open>jax.scipy.special.logsumexp\<close> in exact arithmetic: the logarithm of the sum of the
  exponentials. (On an empty array jax returns \<open>-inf\<close>, which is no real number; the
  forward pass subtracts it from every entry of the same empty array, so the value chosen
  here for the empty list never reaches a result.)
\<close>

definition logsumexp :: "real list \<Rightarrow> real" where
  "logsumexp a = ln (sum_list (map exp a))"

subsection \<open>\<open>forward_pass\<close>\<close>

text \<open>
  \<^verbatim>\<open>def forward_pass(params, in_array):
    activations = in_array
    for w, b in params[:-1]:
        activations = relu_layer([w, b], activations)
    final_w, final_b = params[-1]
    logits = np.dot(final_w, activations) + final_b
    return logits - logsumexp(logits)\<close>
  \<open>hidden_layers\<close> is the loop over \<open>params[:-1]\<close>; \<open>params[-1]\<close> raises IndexError on an
  empty parameter list (the loop over \<open>[][:-1]\<close> does nothing before that).
\<close>

fun hidden_layers :: "mlp_params \<Rightarrow> real list \<Rightarrow> error + real list" where
  "hidden_layers [] activations = Inr activations"
| "hidden_layers (wb # ps) activations =
     (case relu_layer wb activations of
        Inl e \<Rightarrow> Inl e
      | Inr a \<Rightarrow> hidden_layers ps a)"

definition forward_pass :: "mlp_params \<Rightarrow> real list \<Rightarrow> error + real list" where
  "forward_pass params in_array =
     (case hidden_layers (butlast params) in_array of
        Inl e \<Rightarrow> Inl e
      | Inr activations \<Rightarrow>
          if params = [] then Inl IndexError
          else
            (case dot (fst (last params)) activations of
               Inl e \<Rightarrow> Inl e
             | Inr d \<Rightarrow>
                 (case broadcast2 (+) d (snd (last params)) of
                    Inl e \<Rightarrow> Inl e
                  | Inr logits \<Rightarrow> Inr (map (\<lambda>l. l - logsumexp logits) logits))))"

text \<open>
  \<open>batch_forward = vmap(forward_pass, in_axes=(None, 0), out_axes=0)\<close>: the forward pass of
  every row of the batch, with the same parameters.
\<close>

definition batch_forward :: "mlp_params \<Rightarrow> real list list \<Rightarrow> error + real list list" where
  "batch_forward params in_arrays = map_result (forward_pass params) in_arrays"

subsection \<open>\<open>loss\<close>\<close>

text \<open>
  An elementwise operation on two 2-D arrays with the same number of rows, or one of them
  with a single row (stretched to the other): row by row, with the broadcasting of the
  rows. (Where the result has no row, there are no rows whose lengths could disagree: the
  result is empty. A loader yields no empty batch.)
\<close>

definition broadcast2_rows :: "(real \<Rightarrow> real \<Rightarrow> real) \<Rightarrow> real list list \<Rightarrow> real list list
    \<Rightarrow> error + real list list" where
  "broadcast2_rows f a b =
     (if length a = length b then map_result (\<lambda>(r, q). broadcast2 f r q) (zip a b)
      else if length a = 1 then map_result (\<lambda>q. broadcast2 f (hd a) q) b
      else if length b = 1 then map_result (\<lambda>r. broadcast2 f r (hd b)) a
      else Inl ShapeError)"

text \<open>
  \<^verbatim>\<open>def loss(params, in_arrays, targets):
    preds = batch_forward(params, in_arrays)
    return -np.sum(preds * targets)\<close>
\<close>

definition loss :: "mlp_params \<Rightarrow> real list list \<Rightarrow> real list list \<Rightarrow> error + real" where
  "loss params in_arrays targets =
     (case batch_forward params in_arrays of
        Inl e \<Rightarrow> Inl e
      | Inr preds \<Rightarrow>
          (case broadcast2_rows (*) preds targets of
             Inl e \<Rightarrow> Inl e
           | Inr products \<Rightarrow> Inr (- sum_list (map sum_list products))))"

subsection \<open>\<open>accuracy\<close>\<close>

text \<open>
  A data loader yields batches \<open>(data, target)\<close>: a tensor of images and the tensor of their
  integer labels, of the same first dimension. A batch is the list of its examples, an
  image the list of its pixel values, and a loader the list of the batches of one pass.
  The loaders are built with the default \<open>drop_last=False\<close>, so a pass yields every example
  of the data set once and \<open>len(data_loader.dataset)\<close> is the number of examples of the
  pass. (The order of a pass is reshuffled every time; no modelled result depends on it.)
\<close>

type_synonym example = "real list \<times> int"
type_synonym batch = "example list"
type_synonym data_loader = "batch list"

definition dataset_len :: "data_loader \<Rightarrow> nat" where
  "dataset_len data_loader = length (concat data_loader)"

definition num_classes :: nat where
  "num_classes = 10"

text \<open>
  \<open>np.array(data).reshape(data.size(0), 28*28)\<close>: one row of 784 pixels per image; it raises
  when the images of the batch do not have 784 pixels each.
\<close>

definition reshape_784 :: "real list list \<Rightarrow> error + real list list" where
  "reshape_784 data =
     (if list_all (\<lambda>img. length img = 28 * 28) data then Inr data else Inl ShapeError)"

text \<open>
  The body of the loop of \<open>accuracy\<close>, for one batch: the number of positions where
  \<open>predicted_class == target_class\<close>.
\<close>

definition batch_correct :: "mlp_params \<Rightarrow> batch \<Rightarrow> error + nat" where
  "batch_correct params b =
     (case reshape_784 (map fst b) of
        Inl e \<Rightarrow> Inl e
      | Inr images \<Rightarrow>
          (case argmax_axis1 (one_hot (map snd b) num_classes) of
             Inl e \<Rightarrow> Inl e
           | Inr target_class \<Rightarrow>
               (case batch_forward params images of
                  Inl e \<Rightarrow> Inl e
                | Inr preds \<Rightarrow>
                    (case argmax_axis1 preds of
                       Inl e \<Rightarrow> Inl e
                     | Inr predicted_class \<Rightarrow>
                         Inr (length (filter (\<lambda>(p, t). p = t)
                                (zip predicted_class target_class)))))))"

fun accuracy_loop :: "mlp_params \<Rightarrow> data_loader \<Rightarrow> nat \<Rightarrow> error + nat" where
  "accuracy_loop params [] acc_total = Inr acc_total"
| "accuracy_loop params (b # bs) acc_total =
     (case batch_correct params b of
        Inl e \<Rightarrow> Inl e
      | Inr c \<Rightarrow> accuracy_loop params bs (acc_total + c))"

text \<open>
  \<^verbatim>\<open>def accuracy(params, data_loader):
    acc_total = 0
    for batch_idx, (data, target) in enumerate(data_loader):
        ...
        acc_total += np.sum(predicted_class == target_class)
    return acc_total/len(data_loader.dataset)\<close>
  The division by the length of an empty data set has no value (an exception or \<open>nan\<close>):
  it is an error here.
\<close>

definition accuracy :: "mlp_params \<Rightarrow> data_loader \<Rightarrow> error + real" where
  "accuracy params data_loader =
     (case accuracy_loop params data_loader 0 of
        Inl e \<Rightarrow> Inl e
      | Inr acc_total \<Rightarrow>
          if dataset_len data_loader = 0 then Inl ZeroDivisionError
          else Inr (real acc_total / real (dataset_len data_loader)))"

text \<open>
  The words of the claim about \<open>accuracy\<close>: the predicted class of an example is the arg-max
  of the log-probabilities of its image, its target class the arg-max of the one-hot
  encoding of its label.
\<close>

definition predicted_class_of :: "mlp_params \<Rightarrow> example \<Rightarrow> error + nat" where
  "predicted_class_of params ex =
     (case forward_pass params (fst ex) of Inl e \<Rightarrow> Inl e | Inr lp \<Rightarrow> argmax lp)"

definition target_class_of :: "example \<Rightarrow> error + nat" where
  "target_class_of ex = argmax (map (\<lambda>j. if snd ex = int j then 1 else 0) [0..<num_classes])"

definition matches :: "mlp_params \<Rightarrow> example \<Rightarrow> bool" where
  "matches params ex =
     (case (predicted_class_of params ex, target_class_of ex) of
        (Inr p, Inr t) \<Rightarrow> p = t
      | _ \<Rightarrow> False)"

subsection \<open>\<open>initialize_mlp\<close>\<close>

text \<open>
  The random numbers come from \<open>jax.random\<close>, which is not part of the notebook: it is a
  parameter. \<open>random_split R key num\<close> is \<open>random.split(key, num)\<close> (the array of new
  keys), \<open>random_normal2 R key n m\<close> is \<open>random.normal(key, (n, m))\<close> and
  \<open>random_normal1 R key n\<close> is \<open>random.normal(key, (n,))\<close>. What the theorems need of the
  library (the shapes of what it returns) is a hypothesis where it is used.
\<close>

record 'k prng =
  random_split :: "'k \<Rightarrow> nat \<Rightarrow> 'k list"
  random_normal2 :: "'k \<Rightarrow> nat \<Rightarrow> nat \<Rightarrow> mat"
  random_normal1 :: "'k \<Rightarrow> nat \<Rightarrow> real list"

definition scale_mat :: "real \<Rightarrow> mat \<Rightarrow> mat" where
  "scale_mat c w = Mat (ncols w) (map (map ((*) c)) (rows w))"

definition scale_vec :: "real \<Rightarrow> real list \<Rightarrow> real list" where
  "scale_vec c v = map ((*) c) v"

text \<open>
  \<^verbatim>\<open>def initialize_layer(m, n, key, scale=1e-2):
    w_key, b_key = random.split(key)
    return scale * random.normal(w_key, (n, m)), scale * random.normal(b_key, (n,))\<close>
  \<open>random.split(key)\<close> asks for 2 keys; unpacking anything but two keys raises ValueError.
\<close>

definition initialize_layer :: "'k prng \<Rightarrow> nat \<Rightarrow> nat \<Rightarrow> 'k \<Rightarrow> real \<Rightarrow> error + layer" where
  "initialize_layer R m n key scale =
     (case random_split R key 2 of
        [w_key, b_key] \<Rightarrow>
          Inr (scale_mat scale (random_normal2 R w_key n m),
               scale_vec scale (random_normal1 R b_key n))
      | _ \<Rightarrow> Inl ValueError)"

text \<open>
  \<^verbatim>\<open>def initialize_mlp(sizes, key):
    keys = random.split(key, len(sizes))
    ...
    return [initialize_layer(m, n, k) for m, n, k in zip(sizes[:-1], sizes[1:], keys)]\<close>
\<close>

definition initialize_mlp :: "'k prng \<Rightarrow> nat list \<Rightarrow> 'k \<Rightarrow> error + mlp_params" where
  "initialize_mlp R sizes key =
     (let keys = random_split R key (length sizes)
      in map_result (\<lambda>(m, n, k). initialize_layer R m n k 0.01)
           (zip (butlast sizes) (zip (tl sizes) keys)))"

subsection \<open>\<open>update\<close> and \<open>run_mnist_training_loop\<close>\<close>

text \<open>
  The input of the network for one batch: the images flattened to rows of 784 pixels
  (\<open>net_type == "MLP"\<close>), or the image tensor as it is (\<open>net_type == "CNN"\<close>).
\<close>

datatype nn_input = Flattened "real list list" | Unflattened "real list list"

text \<open>
  What the training loop takes from outside the notebook's own code is a parameter:
  \<^item> \<open>get_params\<close> and \<open>opt_update\<close>, of \<open>optimizers.adam(step_size)\<close>, on the optimizer
    state \<open>'o\<close>;
  \<^item> \<open>grad_loss\<close>, the gradient of \<open>loss\<close> with respect to the parameters (of the
    parameters' own structure), which jax's \<open>value_and_grad(loss)\<close> returns next to the
    value of \<open>loss\<close>;
  \<^item> \<open>loss_unflattened\<close>, the value of \<open>loss\<close> on a batch of images that are not
    flattened: arrays of more than two dimensions are not modelled;
  \<^item> the two global data loaders;
  \<^item> \<open>epoch_time e\<close>, the difference of the two clock readings \<open>time.time()\<close> of epoch \<open>e\<close>
    (no cell of the notebook imports \<open>time\<close>);
  \<^item> \<open>fmt_2f\<close> and \<open>fmt_3f\<close>, Python's float formats \<open>{:0.2f}\<close> and \<open>{:0.3f}\<close>.
\<close>

record 'o env =
  get_params :: "'o \<Rightarrow> mlp_params"
  opt_update :: "nat \<Rightarrow> mlp_params \<Rightarrow> 'o \<Rightarrow> 'o"
  grad_loss :: "mlp_params \<Rightarrow> nn_input \<Rightarrow> real list list \<Rightarrow> mlp_params"
  loss_unflattened :: "mlp_params \<Rightarrow> real list list \<Rightarrow> real list list \<Rightarrow> error + real"
  train_loader :: data_loader
  test_loader :: data_loader
  epoch_time :: "nat \<Rightarrow> real"
  fmt_2f :: "real \<Rightarrow> string"
  fmt_3f :: "real \<Rightarrow> string"

text \<open>The value of \<open>loss(params, x, y)\<close> for the input \<open>x\<close> of a batch.\<close>

definition loss_on :: "'o env \<Rightarrow> mlp_params \<Rightarrow> nn_input \<Rightarrow> real list list \<Rightarrow> error + real" where
  "loss_on E params x y =
     (case x of
        Flattened in_arrays \<Rightarrow> loss params in_arrays y
      | Unflattened in_arrays \<Rightarrow> loss_unflattened E params in_arrays y)"

text \<open>
  \<^verbatim>\<open>@jit
def update(params, x, y, opt_state):
    value, grads = value_and_grad(loss)(params, x, y)
    opt_state = opt_update(0, grads, opt_state)
    return get_params(opt_state), opt_state, value\<close>
  \<open>value_and_grad(loss)\<close> evaluates \<open>loss\<close>, whose exception it passes on.
\<close>

definition update :: "'o env \<Rightarrow> mlp_params \<Rightarrow> nn_input \<Rightarrow> real list list \<Rightarrow> 'o
    \<Rightarrow> error + (mlp_params \<times> 'o \<times> real)" where
  "update E params x y opt_state =
     (case loss_on E params x y of
        Inl e \<Rightarrow> Inl e
      | Inr val \<Rightarrow>
          (let grads = grad_loss E params x y;
               opt_state' = opt_update E 0 grads opt_state
           in Inr (get_params E opt_state', opt_state', val)))"

text \<open>
  The local variables of \<open>run_mnist_training_loop\<close> (\<open>st_params\<close> is \<open>params\<close> and
  \<open>st_opt_state\<close> is \<open>opt_state\<close>), and the lines it has printed. The function returns
  \<open>(train_loss, log_acc_train, log_acc_test)\<close>.
\<close>

record 'o loop_state =
  st_params :: mlp_params
  st_opt_state :: 'o
  train_loss :: "real list"
  log_acc_train :: "real list"
  log_acc_test :: "real list"
  printed :: "string list"

text \<open>\<open>str\<close> of a natural number, for the \<open>{}\<close> of the status line.\<close>

fun show_nat :: "nat \<Rightarrow> string" where
  "show_nat n =
     (if n < 10 then [''0123456789'' ! n]
      else show_nat (n div 10) @ [''0123456789'' ! (n mod 10)])"

text \<open>
  \<^verbatim>\<open>"Epoch {} | T: {:0.2f} | Train A: {:0.3f} | Test A: {:0.3f}".format(
      epoch+1, epoch_time, train_acc, test_acc)\<close>
  with \<open>n\<close> the number \<open>epoch+1\<close>.
\<close>

definition status_line :: "'o env \<Rightarrow> nat \<Rightarrow> real \<Rightarrow> real \<Rightarrow> real \<Rightarrow> string" where
  "status_line E n t train_acc test_acc =
     ''Epoch '' @ show_nat n @ '' | T: '' @ fmt_2f E t
       @ '' | Train A: '' @ fmt_3f E train_acc @ '' | Test A: '' @ fmt_3f E test_acc"

text \<open>
  The first lines of the body of the inner loop: \<open>x\<close> for one batch. With a \<open>net_type\<close> that
  is neither \<open>"MLP"\<close> nor \<open>"CNN"\<close> no branch assigns \<open>x\<close>, and reading it raises.
\<close>

definition batch_input :: "string \<Rightarrow> batch \<Rightarrow> error + nn_input" where
  "batch_input net_type b =
     (if net_type = ''MLP'' then
        (case reshape_784 (map fst b) of Inl e \<Rightarrow> Inl e | Inr x \<Rightarrow> Inr (Flattened x))
      else if net_type = ''CNN'' then Inr (Unflattened (map fst b))
      else Inl UnboundLocalError)"

text \<open>
  The inner loop, \<open>for batch_idx, (data, target) in enumerate(train_loader)\<close>: one update
  per batch, whose loss (the local variable \<open>loss\<close>, here \<open>loss'\<close>) is appended to
  \<open>train_loss\<close>.
\<close>

fun train_batches :: "'o env \<Rightarrow> string \<Rightarrow> batch list \<Rightarrow> 'o loop_state \<Rightarrow> error + 'o loop_state" where
  "train_batches E net_type [] st = Inr st"
| "train_batches E net_type (b # bs) st =
     (case batch_input net_type b of
        Inl e \<Rightarrow> Inl e
      | Inr x \<Rightarrow>
          (case update E (st_params st) x (one_hot (map snd b) num_classes) (st_opt_state st) of
             Inl e \<Rightarrow> Inl e
           | Inr (params', opt_state', loss') \<Rightarrow>
               train_batches E net_type bs
                 (st\<lparr>st_params := params', st_opt_state := opt_state',
                     train_loss := train_loss st @ [loss']\<rparr>)))"

text \<open>The body of the outer loop, for the epoch of index \<open>epoch\<close>.\<close>

definition run_epoch :: "'o env \<Rightarrow> string \<Rightarrow> nat \<Rightarrow> 'o loop_state \<Rightarrow> error + 'o loop_state" where
  "run_epoch E net_type epoch st =
     (case train_batches E net_type (train_loader E) st of
        Inl e \<Rightarrow> Inl e
      | Inr st1 \<Rightarrow>
          (case accuracy (st_params st1) (train_loader E) of
             Inl e \<Rightarrow> Inl e
           | Inr train_acc \<Rightarrow>
               (case accuracy (st_params st1) (test_loader E) of
                  Inl e \<Rightarrow> Inl e
                | Inr test_acc \<Rightarrow>
                    Inr (st1\<lparr>log_acc_train := log_acc_train st1 @ [train_acc],
                             log_acc_test := log_acc_test st1 @ [test_acc],
                             printed := printed st1 @
                               [status_line E (epoch + 1) (epoch_time E epoch)
                                  train_acc test_acc]\<rparr>))))"

text \<open>The outer loop, \<open>for epoch in range(num_epochs)\<close>, over the list of its indices.\<close>

fun run_epochs :: "'o env \<Rightarrow> string \<Rightarrow> nat list \<Rightarrow> 'o loop_state \<Rightarrow> error + 'o loop_state" where
  "run_epochs E net_type [] st = Inr st"
| "run_epochs E net_type (epoch # es) st =
     (case run_epoch E net_type epoch st of
        Inl e \<Rightarrow> Inl e
      | Inr st' \<Rightarrow> run_epochs E net_type es st')"

text \<open>
  \<^verbatim>\<open>def run_mnist_training_loop(num_epochs, opt_state, net_type="MLP"):
    log_acc_train, log_acc_test, train_loss = [], [], []
    params = get_params(opt_state)
    train_acc = accuracy(params, train_loader)
    test_acc = accuracy(params, test_loader)
    log_acc_train.append(train_acc)
    log_acc_test.append(test_acc)
    for epoch in range(num_epochs):
        ...
    return train_loss, log_acc_train, log_acc_test\<close>
  The number of epochs is a natural number (the \<open>range\<close> of a negative number is empty,
  as that of 0). The result is the final state: the three logs that the function returns,
  with the last parameters and the printed lines.
\<close>

definition run_mnist_training_loop :: "'o env \<Rightarrow> nat \<Rightarrow> 'o \<Rightarrow> string \<Rightarrow> error + 'o loop_state" where
  "run_mnist_training_loop E num_epochs opt_state net_type =
     (let params0 = get_params E opt_state in
      case accuracy params0 (train_loader E) of
        Inl e \<Rightarrow> Inl e
      | Inr train_acc \<Rightarrow>
          (case accuracy params0 (test_loader E) of
             Inl e \<Rightarrow> Inl e
           | Inr test_acc \<Rightarrow>
               run_epochs E net_type [0..<num_epochs]
                 \<lparr>st_params = params0, st_opt_state = opt_state, train_loss = [],
                  log_acc_train = [train_acc], log_acc_test = [test_acc], printed = []\<rparr>))"

text \<open>
  The words of the claim about one epoch's pass over the training batches, as a relation:
  \<open>one_update_per_batch E net_type bs (p, s) losses (p', s')\<close> holds when the batches \<open>bs\<close>,
  taken in order from the parameters \<open>p\<close> and the optimizer state \<open>s\<close>, each give one
  loss (the value of \<open>loss\<close> for the batch's input and one-hot targets at the current
  parameters) and one optimizer step along the gradient at the current parameters, and
  end at \<open>p'\<close> and \<open>s'\<close> with the list \<open>losses\<close> of these losses.
\<close>

inductive one_update_per_batch :: "'o env \<Rightarrow> string \<Rightarrow> batch list \<Rightarrow> mlp_params \<times> 'o
    \<Rightarrow> real list \<Rightarrow> mlp_params \<times> 'o \<Rightarrow> bool"
  for E :: "'o env" and net_type :: string where
  no_batch: "one_update_per_batch E net_type [] q [] q"
| next_batch:
    "batch_input net_type b = Inr x \<Longrightarrow>
     y = one_hot (map snd b) num_classes \<Longrightarrow>
     loss_on E p x y = Inr l \<Longrightarrow>
     s' = opt_update E 0 (grad_loss E p x y) s \<Longrightarrow>
     one_update_per_batch E net_type bs (get_params E s', s') ls q \<Longrightarrow>
     one_update_per_batch E net_type (b # bs) (p, s) (l # ls) q"


section \<open>The bivariate normal density (Question1)\<close>

text \<open>A point of the plane, and a 2x2 matrix as its two rows.\<close>

type_synonym vec2 = "real \<times> real"
type_synonym mat2 = "(real \<times> real) \<times> (real \<times> real)"

definition det2 :: "mat2 \<Rightarrow> real" where
  "det2 S = fst (fst S) * snd (snd S) - snd (fst S) * fst (snd S)"

definition inv2 :: "mat2 \<Rightarrow> mat2" where
  "inv2 S =
     ((snd (snd S) / det2 S, - snd (fst S) / det2 S),
      (- fst (snd S) / det2 S, fst (fst S) / det2 S))"

text \<open>The quadratic form \<open>v\<^sup>T A v\<close>.\<close>

definition quad_form :: "mat2 \<Rightarrow> vec2 \<Rightarrow> real" where
  "quad_form A v =
     fst v * (fst (fst A) * fst v + snd (fst A) * snd v)
     + snd v * (fst (snd A) * fst v + snd (snd A) * snd v)"

definition vsub :: "vec2 \<Rightarrow> vec2 \<Rightarrow> vec2" where
  "vsub x m = (fst x - fst m, snd x - snd m)"

text \<open>
  Modelled from the spec: the grid loop evaluates \<open>distr.pdf([X[i,j], Y[i,j]])\<close>, but no cell
  of the notebook defines \<open>distr\<close> (nor imports what would build it). The spec (4.1) gives
  the density of a point for a mean vector and an invertible covariance matrix as the
  closed-form exponential of the quadratic form, normalized by \<open>1/sqrt((2\<pi>)^2 |\<Sigma>|)\<close>.
  \<open>pdf_spec x mu cov\<close> is that density at \<open>x\<close>, with \<open>cov\<close> the matrix \<open>\<Sigma>\<close>.
\<close>

definition pdf_spec :: "vec2 \<Rightarrow> vec2 \<Rightarrow> mat2 \<Rightarrow> real" where
  "pdf_spec x mu cov =
     1 / sqrt ((2 * pi)\<^sup>2 * det2 cov)
     * exp (- quad_form (inv2 cov) (vsub x mu) / 2)"

text \<open>The density of the standard normal distribution on the line, of the claims' words.\<close>

definition std_normal_pdf :: "real \<Rightarrow> real" where
  "std_normal_pdf x = 1 / sqrt (2 * pi) * exp (- x\<^sup>2 / 2)"

subsection \<open>The evaluation grid\<close>

text \<open>
  \<^verbatim>\<open>cov_val = [-0.8, 0, 0.8]
mean = np.array([0,0])
for idx, val in enumerate(cov_val):
    cov = np.array([[1, val], [val, 1]])
    mean_1, mean_2 = mean[0], mean[1]
    sigma_1, sigma_2 = cov[0,0], cov[1,1]
    x = np.linspace(-3*sigma_1, 3*sigma_1, num=100)
    y = np.linspace(-3*sigma_2, 3*sigma_2, num=100)
    X, Y = np.meshgrid(x,y)\<close>
\<close>

definition cov_val :: "real list" where
  "cov_val = [- 0.8, 0, 0.8]"

definition mean :: vec2 where
  "mean = (0, 0)"

definition cov_of :: "real \<Rightarrow> mat2" where
  "cov_of val = ((1, val), (val, 1))"

text \<open>
  \<open>np.linspace(start, stop, num)\<close>: \<open>num\<close> evenly spaced points, \<open>start\<close> the first and
  \<open>stop\<close> the last; a single point is \<open>start\<close>.
\<close>

definition linspace :: "real \<Rightarrow> real \<Rightarrow> nat \<Rightarrow> real list" where
  "linspace start stop num =
     (if num = 1 then [start]
      else map (\<lambda>i. start + real i * ((stop - start) / real (num - 1))) [0..<num])"

text \<open>
  \<open>np.meshgrid(x, y)\<close>: two 2-D arrays of \<open>len(y)\<close> rows and \<open>len(x)\<close> columns, with
  \<open>X[i,j] = x[j]\<close> and \<open>Y[i,j] = y[i]\<close>.
\<close>

definition meshgrid :: "real list \<Rightarrow> real list \<Rightarrow> real list list \<times> real list list" where
  "meshgrid x y = (replicate (length y) x, map (\<lambda>yi. replicate (length x) yi) y)"

definition grid_axes :: "mat2 \<Rightarrow> real list \<times> real list" where
  "grid_axes cov =
     (let sigma_1 = fst (fst cov); sigma_2 = snd (snd cov)
      in (linspace (- 3 * sigma_1) (3 * sigma_1) 100,
          linspace (- 3 * sigma_2) (3 * sigma_2) 100))"

definition grid :: "mat2 \<Rightarrow> real list list \<times> real list list" where
  "grid cov = (case grid_axes cov of (x, y) \<Rightarrow> meshgrid x y)"

text \<open>
  \<^verbatim>\<open>pdf = np.zeros(X.shape)
for i in range(X.shape[0]):
    for j in range(X.shape[1]):
        pdf[i,j] = distr.pdf([X[i,j], Y[i,j]])\<close>
  with \<open>distr\<close> the distribution of the iteration's \<open>mean\<close> and \<open>cov\<close>.
\<close>

definition pdf_grid :: "mat2 \<Rightarrow> real list list" where
  "pdf_grid cov =
     (case grid cov of
        (X, Y) \<Rightarrow>
          map (\<lambda>i. map (\<lambda>j. pdf_spec (X ! i ! j, Y ! i ! j) mean cov) [0..<length (X ! 0)])
            [0..<length X])"

section \<open>Small inputs that exercise the theorems\<close>

text \<open>An all-black image of 28 x 28 pixels.\<close>

definition blank_image :: "real list" where
  "blank_image = replicate 784 0"

text \<open>
  A network without hidden layer and with two classes: its logits are \<open>(1, 0)\<close> on the
  blank image, so that it predicts class 0.
\<close>

definition tiny_params :: mlp_params where
  "tiny_params = [(Mat 784 [blank_image, blank_image], [1, 0])]"

text \<open>A loader of two batches of two examples, with labels 0 and 1.\<close>

definition tiny_loader :: data_loader where
  "tiny_loader = [[(blank_image, 0), (blank_image, 1)], [(blank_image, 0), (blank_image, 1)]]"

text \<open>
  A stand-in for the random number library, with natural numbers as keys: every entry of
  a draw is the key it is drawn for.
\<close>

definition toy_prng :: "nat prng" where
  "toy_prng =
     \<lparr>random_split = (\<lambda>key num. map (\<lambda>i. key * num + i) [0..<num]),
      random_normal2 = (\<lambda>key n m. Mat m (replicate n (replicate m (real key)))),
      random_normal1 = (\<lambda>key n. replicate n (real key))\<rparr>"

text \<open>
  A network for the ten classes without hidden layer: weights 0 and the bias
  \<open>ten_logits\<close>, which are its logits on the blank image, so that it predicts class 0.
\<close>

definition ten_logits :: "real list" where
  "ten_logits = [1, 0, 0, 0, 0, 0, 0, 0, 0, 0]"

definition ten_params :: mlp_params where
  "ten_params =
     [(Mat 784 [blank_image, blank_image, blank_image, blank_image, blank_image,
                blank_image, blank_image, blank_image, blank_image, blank_image],
       ten_logits)]"

text \<open>
  An environment for the training loop with \<open>tiny_loader\<close> for training and one batch
  of two images of class 0 for testing; an optimizer that counts its steps in its state
  and keeps the parameters \<open>ten_params\<close> whatever the gradient (as a step of size 0
  does); a clock that measures one second per epoch; and formats that are right on the
  numbers 1 and 1/2. The losses of a run are those of \<open>loss\<close>.
\<close>

definition ten_env :: "nat env" where
  "ten_env =
     \<lparr>get_params = (\<lambda>s. ten_params),
      opt_update = (\<lambda>i grads s. s + 1),
      grad_loss = (\<lambda>p x y. p),
      loss_unflattened = (\<lambda>p x y. Inl ShapeError),
      train_loader = tiny_loader,
      test_loader = [[(blank_image, 0), (blank_image, 0)]],
      epoch_time = (\<lambda>e. 1),
      fmt_2f = (\<lambda>r. if r = 1 then ''1.00'' else ''?''),
      fmt_3f = (\<lambda>r. if r = 1 then ''1.000'' else if r = 1 / 2 then ''0.500'' else ''?'')\<rparr>"

section \<open>Properties\<close>

lemma map_result_Inr_iff:
  "map_result f xs = Inr ys \<longleftrightarrow> map f xs = map Inr ys"
proof (induction xs arbitrary: ys)
  case Nil
  then show ?case by auto
next
  case (Cons x xs)
  show ?case
  proof (cases "f x")
    case (Inl e)
    then show ?thesis by (cases ys) auto
  next
    case (Inr y)
    show ?thesis
    proof (cases "map_result f xs")
      case (Inl e)
      have "map f xs \<noteq> map Inr zs" for zs
        using Cons.IH [of zs] Inl by simp
      with Inr Inl show ?thesis by (cases ys) auto
    next
      case inner: (Inr zs)
      with Cons.IH [of zs] have "map f xs = map Inr zs" by simp
      with Inr inner show ?thesis by (cases ys) (auto simp: inj_map_eq_map)
    qed
  qed
qed

subsection \<open>One-hot encoding\<close>

lemma argmax_go_one_hot_miss:
  "bv \<ge> 1 \<Longrightarrow> argmax_go bi bv i (map (\<lambda>j. if x = int j then 1 else 0) [i..<k]) = bi"
proof (induction "k - i" arbitrary: i)
  case 0
  then show ?case by simp
next
  case (Suc n)
  then have "i < k" by simp
  then have *: "[i..<k] = i # [Suc i..<k]" by (simp add: upt_conv_Cons)
  from Suc have "n = k - Suc i" by simp
  from Suc.hyps(1)[OF this Suc.prems] show ?case using Suc.prems by (simp add: *)
qed

lemma argmax_go_one_hot_hit:
  "bv = 0 \<Longrightarrow> i \<le> nat x \<Longrightarrow> 0 \<le> x \<Longrightarrow> nat x < k \<Longrightarrow>
   argmax_go bi bv i (map (\<lambda>j. if x = int j then 1 else 0) [i..<k]) = nat x"
proof (induction "k - i" arbitrary: i)
  case 0
  then show ?case by simp
next
  case (Suc n)
  then have "i < k" by simp
  then have *: "[i..<k] = i # [Suc i..<k]" by (simp add: upt_conv_Cons)
  from Suc have n: "n = k - Suc i" by simp
  show ?case
  proof (cases "x = int i")
    case True
    then show ?thesis
      using argmax_go_one_hot_miss[where bv=1 and x=x and bi=i and i="Suc i" and k=k] Suc.prems
      by (simp add: *)
  next
    case False
    with Suc.prems have "Suc i \<le> nat x" by linarith
    from Suc.hyps(1)[OF n Suc.prems(1) this Suc.prems(3,4)] False Suc.prems
    show ?thesis by (simp add: *)
  qed
qed

lemma argmax_one_hot_row:
  assumes "0 \<le> x" "x < int k"
  shows "argmax (map (\<lambda>j. if x = int j then 1 else 0) [0..<k]) = Inr (nat x)"
proof -
  from assms have k: "0 < k" by linarith
  then have *: "[0..<k] = 0 # [Suc 0..<k]" by (simp add: upt_conv_Cons)
  show ?thesis
  proof (cases "x = 0")
    case True
    then show ?thesis
      using argmax_go_one_hot_miss[where bv=1 and x=0 and bi=0 and i="Suc 0" and k=k]
      by (simp add: *)
  next
    case False
    with assms have "Suc 0 \<le> nat x" "nat x < k" by linarith+
    from argmax_go_one_hot_hit[OF refl this(1) assms(1) this(2), where bi=0] False
    show ?thesis by (simp add: *)
  qed
qed

text \<open>
  Claim C5. For every number of classes \<open>k > 0\<close> and every batch of labels \<open>xs\<close> with
  \<open>0 \<le> x < k\<close> for each label, the row-wise arg-max of \<open>one_hot xs k\<close> returns the labels
  themselves: the encoding round-trips.
\<close>

theorem one_hot_argmax_roundtrip:
  assumes "0 < k" and "\<forall>x\<in>set xs. 0 \<le> x \<and> x < int k"
  shows "\<exists>cs. argmax_axis1 (one_hot xs k) = Inr cs \<and> map int cs = xs"
proof -
  have "map argmax (one_hot xs k) = map Inr (map nat xs)"
    using assms(2) by (simp add: one_hot_def argmax_one_hot_row)
  then have "argmax_axis1 (one_hot xs k) = Inr (map nat xs)"
    by (simp add: argmax_axis1_def map_result_Inr_iff)
  moreover have "map int (map nat xs) = xs"
    using assms(2) by (simp add: map_idI)
  ultimately show ?thesis by blast
qed

theorem one_hot_argmax_roundtrip_witness:
  "(0::nat) < 3 \<and> list_all (\<lambda>x. 0 \<le> x \<and> x < int 3) [2, 0, 1] \<and>
   (\<exists>cs. argmax_axis1 (one_hot [2, 0, 1] 3) = Inr cs \<and> map int cs = [2, 0, 1])"
  using one_hot_argmax_roundtrip [of 3 "[2, 0, 1]"] by simp

subsection \<open>The forward pass\<close>

lemma sum_list_exp_pos: "xs \<noteq> [] \<Longrightarrow> 0 < sum_list (map exp (xs::real list))"
proof (induction xs)
  case Nil
  then show ?case by simp
next
  case (Cons x xs)
  have "0 \<le> sum_list (map exp xs)" by (rule sum_list_nonneg) auto
  moreover have "0 < exp x" by simp
  ultimately show ?case by (simp add: add_pos_nonneg)
qed

lemma sum_list_exp_shift:
  "sum_list (map (\<lambda>l. exp (l - c)) xs) = sum_list (map exp xs) / exp (c::real)"
  by (induction xs) (simp_all add: exp_diff add_divide_distrib)

lemma log_softmax_normalized:
  assumes "logits \<noteq> []"
  shows "sum_list (map exp (map (\<lambda>l. l - logsumexp logits) logits)) = 1"
proof -
  have pos: "0 < sum_list (map exp logits)" using assms by (rule sum_list_exp_pos)
  then have "exp (logsumexp logits) = sum_list (map exp logits)"
    by (simp add: logsumexp_def)
  with pos show ?thesis by (simp add: sum_list_exp_shift comp_def)
qed

lemma forward_pass_Inr:
  assumes "forward_pass params x = Inr lp"
  shows "\<exists>logits. length logits = length lp \<and> lp = map (\<lambda>l. l - logsumexp logits) logits"
  using assms
  by (auto simp: forward_pass_def split: sum.splits if_splits)

text \<open>
  Claim C1, as stated, for every parameter list: it fails for a network whose last layer
  has no output unit (weights of shape \<open>(0, 2)\<close>, an empty bias). The forward pass returns
  the empty vector, and the exponentials of no entries sum to 0.
\<close>

theorem forward_pass_zero_classes_not_normalized:
  "forward_pass [(Mat 2 [], [])] [1, 2] = Inr [] \<and> sum_list (map exp ([] :: real list)) \<noteq> 1"
  by (simp add: forward_pass_def dot_def broadcast2_def)

text \<open>
  Claim C1, amended. Whenever \<open>forward_pass\<close> returns a vector with at least one entry (at
  least one class), the exponentials of the returned log-probabilities sum to exactly 1,
  for every parameter list and every input vector.
\<close>

theorem forward_pass_normalized:
  assumes "forward_pass params in_array = Inr log_probs" and "log_probs \<noteq> []"
  shows "sum_list (map exp log_probs) = 1"
proof -
  from forward_pass_Inr [OF assms(1)] obtain logits
    where l: "length logits = length log_probs"
      "log_probs = map (\<lambda>l. l - logsumexp logits) logits"
    by blast
  with assms(2) have "logits \<noteq> []" by auto
  from log_softmax_normalized [OF this] l(2) show ?thesis by simp
qed

text \<open>
  A network with one hidden ReLU layer (which clips \<open>-3\<close> to \<open>0\<close>) and two classes, at the
  input \<open>(1, 2)\<close>: the logits are \<open>(1, 0)\<close>.
\<close>

theorem forward_pass_normalized_witness:
  "forward_pass [(Mat 2 [[1, 0], [0, 1]], [0, - 5]), (Mat 2 [[1, 0], [0, 1]], [0, 0])] [1, 2]
     = Inr [1 - logsumexp [1, 0], 0 - logsumexp [1, 0]]
   \<and> [1 - logsumexp [1, 0], 0 - logsumexp [1, 0]] \<noteq> []
   \<and> sum_list (map exp [1 - logsumexp [1, 0], 0 - logsumexp [1, 0]]) = 1"
proof -
  have fp: "forward_pass [(Mat 2 [[1, 0], [0, 1]], [0, - 5]), (Mat 2 [[1, 0], [0, 1]], [0, 0])] [1, 2]
     = Inr [1 - logsumexp [1, 0], 0 - logsumexp [1, 0]]"
    by (simp add: forward_pass_def relu_layer_def ReLU_def dot_def broadcast2_def)
  from forward_pass_normalized [OF fp] fp show ?thesis by simp
qed

subsection \<open>Accuracy\<close>

lemma map_Inr_compose:
  "map f xs = map Inr ys \<Longrightarrow> map g ys = map Inr zs \<Longrightarrow>
   map (\<lambda>x. case f x of Inl e \<Rightarrow> Inl e | Inr y \<Rightarrow> g y) xs = map Inr zs"
proof (induction xs arbitrary: ys zs)
  case Nil
  then show ?case by auto
next
  case (Cons x xs)
  then obtain y ys' where ys: "ys = y # ys'" by (cases ys) auto
  with Cons.prems obtain z zs' where zs: "zs = z # zs'" by (cases zs) auto
  from Cons.prems ys zs have "f x = Inr y" "g y = Inr z" "map f xs = map Inr ys'" "map g ys' = map Inr zs'"
    by auto
  with Cons.IH [of ys' zs'] zs show ?case by simp
qed

lemma count_agreeing:
  "map f xs = map Inr ps \<Longrightarrow> map g xs = map Inr ts \<Longrightarrow>
   length (filter (\<lambda>(p, t). p = t) (zip ps ts))
   = length (filter (\<lambda>x. case (f x, g x) of (Inr p, Inr t) \<Rightarrow> p = t | _ \<Rightarrow> False) xs)"
proof (induction xs arbitrary: ps ts)
  case Nil
  then show ?case by auto
next
  case (Cons x xs)
  then obtain p ps' where ps: "ps = p # ps'" by (cases ps) auto
  from Cons.prems obtain t ts' where ts: "ts = t # ts'" by (cases ts) auto
  from Cons.prems ps ts have "f x = Inr p" "g x = Inr t" "map f xs = map Inr ps'"
    "map g xs = map Inr ts'"
    by auto
  with Cons.IH [of ps' ts'] ps ts show ?case by simp
qed

lemma batch_correct_counts:
  assumes "batch_correct params b = Inr c"
  shows "c = length (filter (matches params) b)"
proof -
  from assms obtain target_class preds predicted_class where
    r: "reshape_784 (map fst b) = Inr (map fst b)"
    and t: "argmax_axis1 (one_hot (map snd b) num_classes) = Inr target_class"
    and f: "batch_forward params (map fst b) = Inr preds"
    and p: "argmax_axis1 preds = Inr predicted_class"
    and c: "c = length (filter (\<lambda>(p, t). p = t) (zip predicted_class target_class))"
    by (auto simp: batch_correct_def reshape_784_def split: sum.splits if_splits)
  have "map target_class_of b = map argmax (one_hot (map snd b) num_classes)"
    by (simp add: one_hot_def target_class_of_def)
  with t have t': "map target_class_of b = map Inr target_class"
    by (simp add: argmax_axis1_def map_result_Inr_iff)
  from f have "map (\<lambda>ex. forward_pass params (fst ex)) b = map Inr preds"
    by (simp add: batch_forward_def map_result_Inr_iff comp_def)
  moreover from p have "map argmax preds = map Inr predicted_class"
    by (simp add: argmax_axis1_def map_result_Inr_iff)
  ultimately have p': "map (predicted_class_of params) b = map Inr predicted_class"
    unfolding predicted_class_of_def by (rule map_Inr_compose)
  have "matches params = (\<lambda>x. case (predicted_class_of params x, target_class_of x) of
      (Inr p, Inr t) \<Rightarrow> p = t | _ \<Rightarrow> False)"
    by (rule ext) (simp add: matches_def)
  with count_agreeing [OF p' t'] c show ?thesis by simp
qed

lemma accuracy_loop_counts:
  "accuracy_loop params dl acc_total = Inr r \<Longrightarrow>
   r = acc_total + length (filter (matches params) (concat dl))"
proof (induction dl arbitrary: acc_total)
  case Nil
  then show ?case by simp
next
  case (Cons b bs)
  then obtain c where c: "batch_correct params b = Inr c"
    and rest: "accuracy_loop params bs (acc_total + c) = Inr r"
    by (auto split: sum.splits)
  from Cons.IH [OF rest] batch_correct_counts [OF c] show ?case by simp
qed

lemma accuracy_fraction:
  assumes "accuracy params dl = Inr a"
  shows "0 < dataset_len dl"
    and "a = real (length (filter (matches params) (concat dl))) / real (dataset_len dl)"
proof -
  from assms obtain r where r: "accuracy_loop params dl 0 = Inr r"
    and n: "dataset_len dl \<noteq> 0" and a: "a = real r / real (dataset_len dl)"
    by (auto simp: accuracy_def split: sum.splits if_splits)
  from n show "0 < dataset_len dl" by simp
  from accuracy_loop_counts [OF r] a
  show "a = real (length (filter (matches params) (concat dl))) / real (dataset_len dl)" by simp
qed

text \<open>
  Claim C4. When \<open>accuracy\<close> returns, it returns the number of examples of the pass whose
  predicted class equals their target class, divided by the number of examples of the
  data set; that is exactly 1 when every example matches and exactly 0 when none does.
\<close>

theorem accuracy_is_fraction_of_matches:
  assumes "accuracy params data_loader = Inr a"
  shows "a = real (length (filter (matches params) (concat data_loader)))
             / real (dataset_len data_loader)
    \<and> (list_all (matches params) (concat data_loader) \<longrightarrow> a = 1)
    \<and> (list_all (\<lambda>ex. \<not> matches params ex) (concat data_loader) \<longrightarrow> a = 0)"
proof (intro conjI impI)
  note f = accuracy_fraction [OF assms]
  show "a = real (length (filter (matches params) (concat data_loader)))
              / real (dataset_len data_loader)"
    by (rule f(2))
  { assume "list_all (matches params) (concat data_loader)"
    then have "filter (matches params) (concat data_loader) = concat data_loader"
      by (simp add: list_all_iff)
    with f show "a = 1" by (simp add: dataset_len_def) }
  { assume "list_all (\<lambda>ex. \<not> matches params ex) (concat data_loader)"
    then have "filter (matches params) (concat data_loader) = []"
      by (simp add: list_all_iff filter_empty_conv)
    with f show "a = 0" by simp }
qed

lemma forward_tiny:
  "forward_pass tiny_params blank_image = Inr [1 - logsumexp [1, 0], - logsumexp [1, 0]]"
  by (simp add: forward_pass_def tiny_params_def dot_def broadcast2_def blank_image_def
      sum_list_replicate)

lemma predicted_tiny: "predicted_class_of tiny_params (blank_image, t) = Inr 0"
  by (simp add: predicted_class_of_def forward_tiny)

lemma target_0: "target_class_of (img, 0) = Inr 0"
  using argmax_one_hot_row [of 0 num_classes]
  by (simp add: target_class_of_def num_classes_def)

lemma target_1: "target_class_of (img, 1) = Inr 1"
  using argmax_one_hot_row [of 1 num_classes]
  by (simp add: target_class_of_def num_classes_def)

lemma matches_tiny:
  "matches tiny_params (blank_image, 0)" "\<not> matches tiny_params (blank_image, 1)"
  by (simp_all add: matches_def predicted_tiny target_0 target_1)

lemma reshape_blank:
  "reshape_784 (replicate n blank_image) = Inr (replicate n blank_image)"
  by (simp add: reshape_784_def blank_image_def list_all_iff)

lemma batch_tiny:
  "batch_correct tiny_params [(blank_image, t), (blank_image, u)]
     = Inr (length (filter (matches tiny_params) [(blank_image, t), (blank_image, u)]))"
  if "t \<in> {0, 1}" "u \<in> {0, 1}"
proof -
  have r: "reshape_784 [blank_image, blank_image] = Inr [blank_image, blank_image]"
    using reshape_blank [of 2] by (simp add: numeral_2_eq_2)
  have t: "argmax_axis1 (one_hot [t, u] num_classes)
             = Inr [if t = 0 then 0 else 1, if u = 0 then 0 else 1]"
    using target_0 target_1 that
    by (auto simp add: argmax_axis1_def one_hot_def target_class_of_def)
  have f: "batch_forward tiny_params [blank_image, blank_image]
            = Inr [[1 - logsumexp [1, 0], - logsumexp [1, 0]],
                   [1 - logsumexp [1, 0], - logsumexp [1, 0]]]"
    by (simp add: batch_forward_def forward_tiny)
  have p: "argmax_axis1 [[1 - logsumexp [1, 0], - logsumexp [1, 0]],
                         [1 - logsumexp [1, 0], - logsumexp [1, 0]]] = Inr [0, 0]"
    by (simp add: argmax_axis1_def)
  show ?thesis using that by (auto simp add: batch_correct_def r t f p matches_tiny)
qed

lemma accuracy_tiny: "accuracy tiny_params tiny_loader = Inr (1 / 2)"
  by (simp add: accuracy_def tiny_loader_def batch_tiny dataset_len_def matches_tiny)

lemma accuracy_tiny_all:
  "accuracy tiny_params [[(blank_image, 0), (blank_image, 0)]] = Inr 1"
  by (simp add: accuracy_def batch_tiny dataset_len_def matches_tiny)

lemma accuracy_tiny_none:
  "accuracy tiny_params [[(blank_image, 1), (blank_image, 1)]] = Inr 0"
  by (simp add: accuracy_def batch_tiny dataset_len_def matches_tiny)

text \<open>
  Three passes over blank images with a network that predicts class 0: labels 0 and 1
  mixed (half of the examples match), labels 0 only, and labels 1 only.
\<close>

theorem accuracy_is_fraction_of_matches_witness:
  "(accuracy tiny_params tiny_loader = Inr (1 / 2)
    \<and> real (length (filter (matches tiny_params) (concat tiny_loader)))
        / real (dataset_len tiny_loader) = 1 / 2)
   \<and> (accuracy tiny_params [[(blank_image, 0), (blank_image, 0)]] = Inr 1
      \<and> list_all (matches tiny_params) (concat [[(blank_image, 0), (blank_image, 0)]]))
   \<and> (accuracy tiny_params [[(blank_image, 1), (blank_image, 1)]] = Inr 0
      \<and> list_all (\<lambda>ex. \<not> matches tiny_params ex)
           (concat [[(blank_image, 1), (blank_image, 1)]]))"
proof -
  note half = accuracy_is_fraction_of_matches [OF accuracy_tiny, THEN conjunct1, symmetric]
  have all_match:
    "list_all (matches tiny_params) (concat [[(blank_image, 0), (blank_image, 0)]])"
    by (simp add: matches_tiny)
  have none_match:
    "list_all (\<lambda>ex. \<not> matches tiny_params ex) (concat [[(blank_image, 1), (blank_image, 1)]])"
    by (simp add: matches_tiny)
  from accuracy_is_fraction_of_matches [OF accuracy_tiny_all] all_match
  have "accuracy tiny_params [[(blank_image, 0), (blank_image, 0)]] = Inr 1"
    by (simp add: accuracy_tiny_all)
  moreover from accuracy_is_fraction_of_matches [OF accuracy_tiny_none] none_match
  have "accuracy tiny_params [[(blank_image, 1), (blank_image, 1)]] = Inr 0"
    by (simp add: accuracy_tiny_none)
  ultimately show ?thesis
    using accuracy_tiny half all_match none_match by blast
qed

subsection \<open>Initialization of the parameters\<close>

lemma two_keys: "length ks = 2 \<Longrightarrow> ks = [ks ! 0, ks ! 1]"
  by (cases ks; cases "tl ks") auto

lemma initialize_layer_ok:
  assumes "length (random_split R key 2) = 2"
  shows "initialize_layer R m n key scale =
    Inr (scale_mat scale (random_normal2 R (random_split R key 2 ! 0) n m),
         scale_vec scale (random_normal1 R (random_split R key 2 ! 1) n))"
proof -
  from two_keys [OF assms] obtain a b where ab: "random_split R key 2 = [a, b]" by blast
  then show ?thesis by (simp add: initialize_layer_def)
qed

lemma shape_scale_mat [simp]: "shape (scale_mat c w) = shape w"
  by (simp add: shape_def nrows_def scale_mat_def)

lemma well_shaped_scale_mat [simp]: "well_shaped (scale_mat c w) = well_shaped w"
  by (simp add: well_shaped_def scale_mat_def list_all_iff)

lemma length_scale_vec [simp]: "length (scale_vec c v) = length v"
  by (simp add: scale_vec_def)

lemma initialize_mlp_value:
  assumes "\<forall>k. length (random_split R k 2) = 2"
  shows "initialize_mlp R sizes key =
    Inr (map (\<lambda>(m, n, k).
               (scale_mat 0.01 (random_normal2 R (random_split R k 2 ! 0) n m),
                scale_vec 0.01 (random_normal1 R (random_split R k 2 ! 1) n)))
          (zip (butlast sizes) (zip (tl sizes) (random_split R key (length sizes)))))"
proof -
  have "initialize_layer R m n k 0.01 =
      Inr (scale_mat 0.01 (random_normal2 R (random_split R k 2 ! 0) n m),
           scale_vec 0.01 (random_normal1 R (random_split R k 2 ! 1) n))" for m n k
    using initialize_layer_ok [of R k m n "0.01"] assms by simp
  then have "(\<lambda>(m, n, k). initialize_layer R m n k 0.01) =
      (\<lambda>t. Inr (case t of (m, n, k) \<Rightarrow>
        (scale_mat 0.01 (random_normal2 R (random_split R k 2 ! 0) n m),
         scale_vec 0.01 (random_normal1 R (random_split R k 2 ! 1) n))))"
    by (auto simp: fun_eq_iff)
  then show ?thesis
    by (simp add: initialize_mlp_def Let_def map_result_Inr_iff)
qed

lemma entry_scale_mat:
  assumes "r < nrows w" "c < ncols w" "well_shaped w"
  shows "rows (scale_mat k w) ! r ! c = k * (rows w ! r ! c)"
proof -
  from assms(1,3) have "length (rows w ! r) = ncols w"
    by (simp add: well_shaped_def nrows_def list_all_length)
  with assms(1,2) show ?thesis by (simp add: scale_mat_def nrows_def)
qed

lemma entry_scale_vec: "r < length v \<Longrightarrow> scale_vec k v ! r = k * (v ! r)"
  by (simp add: scale_vec_def)

text \<open>
  Claim C6. Let the library return what it is asked for: \<open>num\<close> keys from a split, an
  array of the requested shape from \<open>random.normal\<close>. Then for every width sequence of
  length \<open>n \<ge> 1\<close> and every key, \<open>initialize_mlp\<close> returns exactly \<open>n - 1\<close> pairs. Pair \<open>i\<close>
  has a weight matrix of shape \<open>(sizes[i+1], sizes[i])\<close> and a bias of \<open>sizes[i+1]\<close>
  entries; with \<open>w_key\<close> and \<open>b_key\<close> the two keys split from key \<open>i\<close>, every entry of the
  weight matrix is 0.01 times the same entry of the library's normal draw of that shape
  for \<open>w_key\<close>, and every entry of the bias is 0.01 times the same entry of the draw for
  \<open>b_key\<close>.
\<close>

theorem initialize_mlp_shapes:
  assumes split_len: "\<And>k num. length (random_split R k num) = num"
    and normal2_shape: "\<And>k n m. shape (random_normal2 R k n m) = (n, m)
          \<and> well_shaped (random_normal2 R k n m)"
    and normal1_len: "\<And>k n. length (random_normal1 R k n) = n"
    and n: "1 \<le> length sizes"
  shows "\<exists>ps. initialize_mlp R sizes key = Inr ps \<and> length ps = length sizes - 1 \<and>
    (\<forall>i < length sizes - 1. \<exists>w_key b_key.
       random_split R (random_split R key (length sizes) ! i) 2 = [w_key, b_key] \<and>
       shape (fst (ps ! i)) = (sizes ! (i + 1), sizes ! i) \<and> well_shaped (fst (ps ! i)) \<and>
       length (snd (ps ! i)) = sizes ! (i + 1) \<and>
       (\<forall>r < sizes ! (i + 1).
          (\<forall>c < sizes ! i.
             rows (fst (ps ! i)) ! r ! c =
               0.01 * (rows (random_normal2 R w_key (sizes ! (i + 1)) (sizes ! i)) ! r ! c)) \<and>
          snd (ps ! i) ! r = 0.01 * (random_normal1 R b_key (sizes ! (i + 1)) ! r)))"
proof -
  define keys where "keys = random_split R key (length sizes)"
  define ts where "ts = zip (butlast sizes) (zip (tl sizes) keys)"
  define draw where "draw = (\<lambda>(m, n, k).
      (scale_mat 0.01 (random_normal2 R (random_split R k 2 ! 0) n m),
       scale_vec 0.01 (random_normal1 R (random_split R k 2 ! 1) n)))"
  have len_keys: "length keys = length sizes" by (simp add: keys_def split_len)
  have len_ts: "length ts = length sizes - 1" by (simp add: ts_def len_keys)
  have nth_ts: "ts ! i = (sizes ! i, sizes ! (i + 1), keys ! i)" if "i < length sizes - 1" for i
    using that by (simp add: ts_def len_keys nth_butlast nth_tl)
  have val: "initialize_mlp R sizes key = Inr (map draw ts)"
    using initialize_mlp_value [of R sizes key] split_len
    by (simp add: ts_def keys_def draw_def)
  have at: "\<exists>w_key b_key.
       random_split R (keys ! i) 2 = [w_key, b_key] \<and>
       shape (fst (map draw ts ! i)) = (sizes ! (i + 1), sizes ! i) \<and>
       well_shaped (fst (map draw ts ! i)) \<and>
       length (snd (map draw ts ! i)) = sizes ! (i + 1) \<and>
       (\<forall>r < sizes ! (i + 1).
          (\<forall>c < sizes ! i.
             rows (fst (map draw ts ! i)) ! r ! c =
               0.01 * (rows (random_normal2 R w_key (sizes ! (i + 1)) (sizes ! i)) ! r ! c)) \<and>
          snd (map draw ts ! i) ! r = 0.01 * (random_normal1 R b_key (sizes ! (i + 1)) ! r))"
    if i: "i < length sizes - 1" for i
  proof -
    define w_key where "w_key = random_split R (keys ! i) 2 ! 0"
    define b_key where "b_key = random_split R (keys ! i) 2 ! 1"
    define W where "W = random_normal2 R w_key (sizes ! (i + 1)) (sizes ! i)"
    define B where "B = random_normal1 R b_key (sizes ! (i + 1))"
    have two: "random_split R (keys ! i) 2 = [w_key, b_key]"
      unfolding w_key_def b_key_def by (rule two_keys) (rule split_len)
    have d: "map draw ts ! i = (scale_mat 0.01 W, scale_vec 0.01 B)"
      using i nth_ts [OF i] len_ts by (simp add: draw_def W_def B_def w_key_def b_key_def)
    have W: "shape W = (sizes ! (i + 1), sizes ! i)" "well_shaped W"
      using normal2_shape [of w_key "sizes ! (i + 1)" "sizes ! i"] by (simp_all add: W_def)
    then have Wn: "nrows W = sizes ! (i + 1)" "ncols W = sizes ! i"
      by (simp_all add: shape_def)
    have B: "length B = sizes ! (i + 1)" by (simp add: B_def normal1_len)
    have ew: "rows (scale_mat 0.01 W) ! r ! c = 0.01 * (rows W ! r ! c)"
      if "r < sizes ! (i + 1)" "c < sizes ! i" for r c
      using that Wn W(2) by (intro entry_scale_mat) simp_all
    have eb: "scale_vec 0.01 B ! r = 0.01 * (B ! r)" if "r < sizes ! (i + 1)" for r
      using that B by (intro entry_scale_vec) simp
    show ?thesis
      by (rule exI [of _ w_key], rule exI [of _ b_key])
         (use two W B ew eb in \<open>simp add: d W_def B_def\<close>)
  qed
  show ?thesis
    using val len_ts at unfolding keys_def
    by (intro exI [of _ "map draw ts"]) simp
qed

lemma toy_split:
  "random_split toy_prng key num = map (\<lambda>i. key * num + i) [0..<num]"
  by (simp add: toy_prng_def)

lemma toy_normal:
  "random_normal2 toy_prng key n m = Mat m (replicate n (replicate m (real key)))"
  "random_normal1 toy_prng key n = replicate n (real key)"
  by (simp_all add: toy_prng_def)

lemma upt_small: "[0..<3] = [0, 1, 2]" "[0..<2] = [0, 1]"
  by (simp_all add: upt_rec)

text \<open>
  The widths 3, 2, 1 give two layers, of shapes \<open>(2, 3)\<close> and \<open>(1, 2)\<close>. The key 7 splits
  into 21, 22, 23, and 21 into 42 and 43: the first weight matrix holds 0.42 and the first
  bias 0.43.
\<close>

theorem initialize_mlp_shapes_witness:
  "\<exists>ps. initialize_mlp toy_prng [3, 2, 1] 7 = Inr ps \<and> length ps = 2
     \<and> ps = [(Mat 3 [[0.42, 0.42, 0.42], [0.42, 0.42, 0.42]], [0.43, 0.43]),
              (Mat 2 [[0.44, 0.44]], [0.45])]"
proof -
  have h1: "\<And>k num. length (random_split toy_prng k num) = num"
    by (simp add: toy_split)
  have h2: "\<And>k n m. shape (random_normal2 toy_prng k n m) = (n, m)
      \<and> well_shaped (random_normal2 toy_prng k n m)"
    by (simp add: toy_normal shape_def nrows_def well_shaped_def list_all_iff)
  have h3: "\<And>k n. length (random_normal1 toy_prng k n) = n"
    by (simp add: toy_normal)
  have h4: "1 \<le> length [3, 2, 1 :: nat]" by simp
  from initialize_mlp_shapes [of toy_prng "[3, 2, 1]" 7, OF h1 h2 h3 h4]
  have "\<exists>ps. initialize_mlp toy_prng [3, 2, 1] 7 = Inr ps \<and> length ps = length [3, 2, 1 :: nat] - 1"
    by blast
  moreover have "initialize_mlp toy_prng [3, 2, 1] 7 =
      Inr [(Mat 3 [[0.42, 0.42, 0.42], [0.42, 0.42, 0.42]], [0.43, 0.43]),
           (Mat 2 [[0.44, 0.44]], [0.45])]"
    by (simp add: initialize_mlp_def initialize_layer_def toy_split toy_normal upt_small
        scale_mat_def scale_vec_def numeral_2_eq_2 numeral_3_eq_3)
  ultimately show ?thesis by simp
qed

subsection \<open>The density\<close>

lemma quad_form_zero [simp]: "quad_form A (vsub mu mu) = 0"
  by (simp add: quad_form_def vsub_def)

lemma det2_cov_of [simp]: "det2 (cov_of val) = 1 - val\<^sup>2"
  by (simp add: det2_def cov_of_def power2_eq_square)

lemma inv2_identity [simp]: "inv2 (cov_of 0) = ((1, 0), (0, 1))"
  by (simp add: inv2_def det2_def cov_of_def)

text \<open>
  Claim C2. For every covariance matrix of positive determinant (a covariance matrix is
  positive semi-definite, so that a non-singular one has a positive determinant) and
  every mean vector, the density at the mean is exactly \<open>1/(2\<pi> sqrt|\<Sigma>|)\<close>: the
  quadratic form vanishes there and leaves the normalizing constant.
\<close>

theorem density_at_mean:
  assumes "0 < det2 cov"
  shows "pdf_spec mu mu cov = 1 / (2 * pi * sqrt (det2 cov))"
proof -
  have "sqrt ((2 * pi)\<^sup>2) = \<bar>2 * pi\<bar>" by (rule real_sqrt_abs)
  then have "sqrt ((2 * pi)\<^sup>2 * det2 cov) = 2 * pi * sqrt (det2 cov)"
    by (simp add: real_sqrt_mult)
  moreover have "exp (- quad_form (inv2 cov) (vsub mu mu) / 2) = 1" by simp
  ultimately show ?thesis by (simp only: pdf_spec_def mult_1_right)
qed

text \<open>
  The covariance matrix \<open>[[1, 0.8], [0.8, 1]]\<close> of the third iteration has the determinant
  \<open>0.36\<close>, whose square root is \<open>0.6\<close>.
\<close>

theorem density_at_mean_witness:
  "0 < det2 (cov_of 0.8) \<and> pdf_spec mean mean (cov_of 0.8) = 1 / (2 * pi * 0.6)"
proof -
  have d: "det2 (cov_of 0.8) = 0.6\<^sup>2" by (simp add: power2_eq_square)
  have "sqrt (0.6\<^sup>2) = \<bar>0.6 :: real\<bar>" by (rule real_sqrt_abs)
  then have r: "sqrt (det2 (cov_of 0.8)) = 0.6" by (simp only: d)
  have p: "0 < det2 (cov_of 0.8)" by (simp add: power2_eq_square)
  have "pdf_spec mean mean (cov_of 0.8) = 1 / (2 * pi * sqrt (det2 (cov_of 0.8)))"
    using p by (rule density_at_mean)
  then have "pdf_spec mean mean (cov_of 0.8) = 1 / (2 * pi * 0.6)" by (simp only: r)
  with p show ?thesis by (rule conjI)
qed

lemma exp_quad: "exp (- (a + b) / 2) = exp (- a / 2) * exp (- b / (2::real))"
  by (simp add: exp_add [symmetric] add_divide_distrib)

lemma quad_identity: "quad_form ((1, 0), (0, 1)) (vsub (x1, x2) mean) = x1\<^sup>2 + x2\<^sup>2"
  by (simp add: quad_form_def vsub_def mean_def power2_eq_square)

lemma sqrt_two_pi_sq: "sqrt (2 * pi) * sqrt (2 * pi) = 2 * pi"
  by simp

lemma inverse_two_pi: "1 / (2 * pi) = 1 / sqrt (2 * pi) * (1 / sqrt (2 * pi))"
  using sqrt_two_pi_sq by (simp del: real_sqrt_mult_self)

lemma pdf_spec_identity:
  "pdf_spec (x1, x2) mean (cov_of 0) = std_normal_pdf x1 * std_normal_pdf x2"
proof -
  have "sqrt ((2 * pi)\<^sup>2) = \<bar>2 * pi\<bar>" by (rule real_sqrt_abs)
  then have "sqrt ((2 * pi)\<^sup>2 * det2 (cov_of 0)) = 2 * pi" by simp
  then have "pdf_spec (x1, x2) mean (cov_of 0)
      = 1 / (2 * pi) * (exp (- x1\<^sup>2 / 2) * exp (- x2\<^sup>2 / 2))"
    by (simp only: pdf_spec_def inv2_identity quad_identity exp_quad)
  also have "\<dots> = std_normal_pdf x1 * std_normal_pdf x2"
    by (simp only: inverse_two_pi std_normal_pdf_def) (simp only: mult_ac)
  finally show ?thesis .
qed

subsection \<open>The grid\<close>

lemma linspace_100:
  "linspace start stop 100 = map (\<lambda>i. start + real i * ((stop - start) / 99)) [0..<100]"
  by (simp add: linspace_def)

lemma linspace_ends:
  "length (linspace start stop 100) = 100"
  "hd (linspace start stop 100) = start"
  "last (linspace start stop 100) = stop"
proof -
  show "length (linspace start stop 100) = 100" by (simp add: linspace_100)
  have "[0..<100] = 0 # [1..<100]" by (simp add: upt_conv_Cons)
  then show "hd (linspace start stop 100) = start" by (simp add: linspace_100)
  have "[0..<100] \<noteq> []" by simp
  then have "last (map (\<lambda>i. start + real i * ((stop - start) / 99)) [0..<100])
      = start + real (last [0..<100]) * ((stop - start) / 99)"
    by (rule last_map)
  moreover have "last [0..<100] = 99" 
    using last_upt [of 0 100] by simp
  moreover have "start + real 99 * ((stop - start) / 99) = stop"
    by (simp add: diff_divide_distrib)
  ultimately show "last (linspace start stop 100) = stop" by (simp only: linspace_100)
qed

lemma linspace_nth:
  "i < 100 \<Longrightarrow> linspace start stop 100 ! i = start + real i * ((stop - start) / 99)"
  by (simp add: linspace_100)

lemma grid_axes_cov_of:
  "grid_axes (cov_of val) = (linspace (- 3) 3 100, linspace (- 3) 3 100)"
  by (simp add: grid_axes_def cov_of_def)

text \<open>
  Claim C8. For each covariance matrix of the three iterations, each axis of the grid has
  100 evenly spaced points from \<open>-3\<close> to \<open>+3\<close> standard deviations of that axis (the
  square root of the diagonal entry), and the mesh is the 100 x 100 array of their pairs.
  (The program takes the diagonal entry itself for \<open>sigma\<close>; the diagonal entries are 1.)
\<close>

theorem grid_spans_three_sigma:
  assumes "val \<in> set cov_val"
  shows "let cov = cov_of val;
             sd_1 = sqrt (fst (fst cov)); sd_2 = sqrt (snd (snd cov));
             x = fst (grid_axes cov); y = snd (grid_axes cov);
             X = fst (grid cov); Y = snd (grid cov)
         in length x = 100 \<and> hd x = - 3 * sd_1 \<and> last x = 3 * sd_1
          \<and> length y = 100 \<and> hd y = - 3 * sd_2 \<and> last y = 3 * sd_2
          \<and> (\<forall>i < 100. x ! i = - 3 * sd_1 + real i * (6 * sd_1 / 99)
                       \<and> y ! i = - 3 * sd_2 + real i * (6 * sd_2 / 99))
          \<and> length X = 100 \<and> length Y = 100
          \<and> (\<forall>i < 100. length (X ! i) = 100 \<and> length (Y ! i) = 100
                \<and> (\<forall>j < 100. X ! i ! j = x ! j \<and> Y ! i ! j = y ! i))"
proof -
  have sd: "sqrt (fst (fst (cov_of val))) = 1" "sqrt (snd (snd (cov_of val))) = 1"
    by (simp_all add: cov_of_def)
  have g: "grid (cov_of val) = meshgrid (linspace (- 3) 3 100) (linspace (- 3) 3 100)"
    by (simp add: grid_def grid_axes_cov_of)
  show ?thesis
    unfolding Let_def sd g grid_axes_cov_of fst_conv snd_conv
    by (simp add: linspace_ends linspace_nth meshgrid_def)
qed


theorem grid_spans_three_sigma_witness:
  "list_ex (\<lambda>v. v = 0) cov_val
   \<and> hd (fst (grid_axes (cov_of 0))) = - 3 * sqrt (fst (fst (cov_of 0)))
   \<and> last (fst (grid_axes (cov_of 0))) = 3 * sqrt (fst (fst (cov_of 0)))
   \<and> length (fst (grid (cov_of 0))) = 100"
  using grid_spans_three_sigma [of 0] by (simp add: Let_def cov_val_def)

lemma map_over_indices: "map (\<lambda>i. f (xs ! i)) [0..<length xs] = map f xs"
proof -
  have "map (\<lambda>i. f (xs ! i)) [0..<length xs] = map f (map (\<lambda>i. xs ! i) [0..<length xs])"
    by (simp add: comp_def)
  then show ?thesis by (simp only: map_nth)
qed

lemma pdf_grid_identity:
  "pdf_grid (cov_of 0) =
     map (\<lambda>yi. map (\<lambda>xj. std_normal_pdf xj * std_normal_pdf yi) (linspace (- 3) 3 100))
       (linspace (- 3) 3 100)"
proof -
  define x where "x = linspace (- 3) 3 100"
  have len: "length x = 100" by (simp add: x_def linspace_ends)
  have g: "grid (cov_of 0) = (replicate 100 x, map (\<lambda>yi. replicate 100 yi) x)"
    by (simp add: grid_def grid_axes_cov_of meshgrid_def x_def linspace_ends)
  have "pdf_grid (cov_of 0) =
      map (\<lambda>i. map (\<lambda>j. pdf_spec (x ! j, x ! i) mean (cov_of 0)) [0..<length x]) [0..<length x]"
    by (simp add: pdf_grid_def g len)
  also have "\<dots> =
      map (\<lambda>i. map (\<lambda>j. std_normal_pdf (x ! j) * std_normal_pdf (x ! i)) [0..<length x])
        [0..<length x]"
    by (simp only: pdf_spec_identity)
  also have "\<dots> = map (\<lambda>i. map (\<lambda>xj. std_normal_pdf xj * std_normal_pdf (x ! i)) x) [0..<length x]"
  proof -
    have "map (\<lambda>j. std_normal_pdf (x ! j) * std_normal_pdf (x ! i)) [0..<length x]
        = map (\<lambda>xj. std_normal_pdf xj * std_normal_pdf (x ! i)) x" for i
      by (rule map_over_indices [of "\<lambda>xj. std_normal_pdf xj * std_normal_pdf (x ! i)" x])
    then show ?thesis by (simp only:)
  qed
  also have "\<dots> = map (\<lambda>yi. map (\<lambda>xj. std_normal_pdf xj * std_normal_pdf yi) x) x"
    by (rule map_over_indices [of "\<lambda>yi. map (\<lambda>xj. std_normal_pdf xj * std_normal_pdf yi) x" x])
  finally show ?thesis by (simp only: x_def)
qed

text \<open>
  Claim C3. With the covariance matrix \<open>[[1, 0], [0, 1]]\<close> of the second iteration (and the
  program's mean, the origin), the density at every point \<open>(x1, x2)\<close> is the product of
  the standard normal densities at \<open>x1\<close> and at \<open>x2\<close>; so every entry \<open>pdf[i,j]\<close> that the
  grid loop stores in that iteration is the product of the two densities at \<open>x[j]\<close> and at
  \<open>y[i]\<close>.
\<close>

theorem density_factorizes_without_covariance:
  "pdf_spec (x1, x2) mean (cov_of 0) = std_normal_pdf x1 * std_normal_pdf x2
   \<and> pdf_grid (cov_of 0) =
       map (\<lambda>yi. map (\<lambda>xj. std_normal_pdf xj * std_normal_pdf yi)
                  (fst (grid_axes (cov_of 0))))
         (snd (grid_axes (cov_of 0)))"
  by (simp only: pdf_spec_identity pdf_grid_identity grid_axes_cov_of fst_conv snd_conv simp_thms)

subsection \<open>The training loop\<close>


lemma update_Inr:
  "update E p x y s = Inr (p', s', l) \<longleftrightarrow>
   loss_on E p x y = Inr l \<and> s' = opt_update E 0 (grad_loss E p x y) s \<and> p' = get_params E s'"
  by (auto simp: update_def Let_def split: sum.splits)

lemma train_batches_effect:
  "train_batches E net_type bs st = Inr st' \<Longrightarrow>
   \<exists>losses. length losses = length bs
     \<and> one_update_per_batch E net_type bs (st_params st, st_opt_state st) losses
          (st_params st', st_opt_state st')
     \<and> train_loss st' = train_loss st @ losses
     \<and> log_acc_train st' = log_acc_train st \<and> log_acc_test st' = log_acc_test st
     \<and> printed st' = printed st"
proof (induction bs arbitrary: st)
  case Nil
  then show ?case by (auto intro: one_update_per_batch.no_batch)
next
  case (Cons b bs)
  from Cons.prems obtain x p' s' l where
    x: "batch_input net_type b = Inr x"
    and u: "update E (st_params st) x (one_hot (map snd b) num_classes) (st_opt_state st)
        = Inr (p', s', l)"
    and rest: "train_batches E net_type bs
       (st\<lparr>st_params := p', st_opt_state := s', train_loss := train_loss st @ [l]\<rparr>) = Inr st'"
    by (auto split: sum.splits prod.splits)
  from Cons.IH [OF rest] obtain losses where l:
    "length losses = length bs"
    "one_update_per_batch E net_type bs (p', s') losses (st_params st', st_opt_state st')"
    "train_loss st' = (train_loss st @ [l]) @ losses"
    "log_acc_train st' = log_acc_train st" "log_acc_test st' = log_acc_test st"
    "printed st' = printed st"
    by auto
  from u have u': "loss_on E (st_params st) x (one_hot (map snd b) num_classes) = Inr l"
    "s' = opt_update E 0 (grad_loss E (st_params st) x (one_hot (map snd b) num_classes))
            (st_opt_state st)"
    "p' = get_params E s'"
    by (simp_all add: update_Inr)
  from l(2) u'(3) have "one_update_per_batch E net_type bs (get_params E s', s') losses
      (st_params st', st_opt_state st')" by simp
  with x u'(1,2) have "one_update_per_batch E net_type (b # bs) (st_params st, st_opt_state st)
      (l # losses) (st_params st', st_opt_state st')"
    by (intro one_update_per_batch.next_batch [where x = x]) simp_all
  with l show ?case by (intro exI [of _ "l # losses"]) simp
qed

lemma run_epoch_effect:
  assumes "run_epoch E net_type epoch st = Inr st'"
  shows "\<exists>losses train_acc test_acc.
      length losses = length (train_loader E)
    \<and> one_update_per_batch E net_type (train_loader E) (st_params st, st_opt_state st) losses
         (st_params st', st_opt_state st')
    \<and> train_loss st' = train_loss st @ losses
    \<and> accuracy (st_params st') (train_loader E) = Inr train_acc
    \<and> accuracy (st_params st') (test_loader E) = Inr test_acc
    \<and> log_acc_train st' = log_acc_train st @ [train_acc]
    \<and> log_acc_test st' = log_acc_test st @ [test_acc]
    \<and> printed st' = printed st @
         [''Epoch '' @ show_nat (epoch + 1) @ '' | T: '' @ fmt_2f E (epoch_time E epoch)
            @ '' | Train A: '' @ fmt_3f E train_acc @ '' | Test A: '' @ fmt_3f E test_acc]"
proof -
  from assms obtain st1 train_acc test_acc where
    tb: "train_batches E net_type (train_loader E) st = Inr st1"
    and a: "accuracy (st_params st1) (train_loader E) = Inr train_acc"
    and b: "accuracy (st_params st1) (test_loader E) = Inr test_acc"
    and st': "st' = st1\<lparr>log_acc_train := log_acc_train st1 @ [train_acc],
                        log_acc_test := log_acc_test st1 @ [test_acc],
                        printed := printed st1 @
                          [status_line E (epoch + 1) (epoch_time E epoch) train_acc test_acc]\<rparr>"
    by (auto simp: run_epoch_def split: sum.splits)
  from train_batches_effect [OF tb] obtain losses where
    "length losses = length (train_loader E)"
    "one_update_per_batch E net_type (train_loader E) (st_params st, st_opt_state st) losses
       (st_params st1, st_opt_state st1)"
    "train_loss st1 = train_loss st @ losses"
    "log_acc_train st1 = log_acc_train st" "log_acc_test st1 = log_acc_test st"
    "printed st1 = printed st"
    by auto
  with a b st' show ?thesis by (simp add: status_line_def)
qed



lemma run_epochs_counts:
  "run_epochs E net_type es st = Inr st' \<Longrightarrow>
   length (train_loss st') = length (train_loss st) + length es * length (train_loader E)
   \<and> length (printed st') = length (printed st) + length es
   \<and> (\<exists>as. length as = length es \<and> log_acc_train st' = log_acc_train st @ as)
   \<and> (\<exists>bs. length bs = length es \<and> log_acc_test st' = log_acc_test st @ bs)"
proof (induction es arbitrary: st)
  case Nil
  then show ?case by simp
next
  case (Cons e es)
  from Cons.prems obtain s1 where e: "run_epoch E net_type e st = Inr s1"
    and rest: "run_epochs E net_type es s1 = Inr st'"
    by (auto split: sum.splits)
  from run_epoch_effect [OF e] obtain losses a b where s1:
    "length losses = length (train_loader E)" "train_loss s1 = train_loss st @ losses"
    "log_acc_train s1 = log_acc_train st @ [a]" "log_acc_test s1 = log_acc_test st @ [b]"
    "length (printed s1) = length (printed st) + 1"
    by auto
  from Cons.IH [OF rest] obtain as bs where
    "length (train_loss st') = length (train_loss s1) + length es * length (train_loader E)"
    "length (printed st') = length (printed s1) + length es"
    "length as = length es" "log_acc_train st' = log_acc_train s1 @ as"
    "length bs = length es" "log_acc_test st' = log_acc_test s1 @ bs"
    by blast
  with s1 show ?case
    by (auto intro: exI [of _ "a # as"] exI [of _ "b # bs"])
qed







lemma run_start:
  assumes "run_mnist_training_loop E num_epochs opt_state net_type = Inr res"
  shows "\<exists>train_acc test_acc.
      accuracy (get_params E opt_state) (train_loader E) = Inr train_acc
    \<and> accuracy (get_params E opt_state) (test_loader E) = Inr test_acc
    \<and> run_epochs E net_type [0..<num_epochs]
         \<lparr>st_params = get_params E opt_state, st_opt_state = opt_state, train_loss = [],
          log_acc_train = [train_acc], log_acc_test = [test_acc], printed = []\<rparr> = Inr res"
  using assms by (auto simp: run_mnist_training_loop_def Let_def split: sum.splits)

text \<open>
  Claim C10. A run that returns has logged the accuracy on both splits once before the
  first epoch, for the initial parameters \<open>get_params(opt_state)\<close>, and once per epoch:
  each accuracy log holds \<open>num_epochs + 1\<close> entries.
\<close>

theorem accuracy_logged_before_first_epoch:
  assumes "run_mnist_training_loop E num_epochs opt_state net_type = Inr res"
  shows "length (log_acc_train res) = num_epochs + 1
    \<and> length (log_acc_test res) = num_epochs + 1
    \<and> accuracy (get_params E opt_state) (train_loader E) = Inr (hd (log_acc_train res))
    \<and> accuracy (get_params E opt_state) (test_loader E) = Inr (hd (log_acc_test res))"
proof -
  from run_start [OF assms] obtain train_acc test_acc where
    a: "accuracy (get_params E opt_state) (train_loader E) = Inr train_acc"
    and b: "accuracy (get_params E opt_state) (test_loader E) = Inr test_acc"
    and r: "run_epochs E net_type [0..<num_epochs]
         \<lparr>st_params = get_params E opt_state, st_opt_state = opt_state, train_loss = [],
          log_acc_train = [train_acc], log_acc_test = [test_acc], printed = []\<rparr> = Inr res"
    by blast
  from run_epochs_counts [OF r] obtain as bs where
    "length as = num_epochs" "log_acc_train res = [train_acc] @ as"
    "length bs = num_epochs" "log_acc_test res = [test_acc] @ bs"
    by auto
  with a b show ?thesis by simp
qed



lemma forward_ten:
  "forward_pass ten_params blank_image = Inr (map (\<lambda>l. l - logsumexp ten_logits) ten_logits)"
  by (simp add: forward_pass_def ten_params_def dot_def broadcast2_def blank_image_def
      sum_list_replicate ten_logits_def)

lemma predicted_ten: "predicted_class_of ten_params (blank_image, t) = Inr 0"
  by (simp add: predicted_class_of_def forward_ten ten_logits_def)

lemma matches_ten:
  "matches ten_params (blank_image, 0)" "\<not> matches ten_params (blank_image, 1)"
  by (simp_all add: matches_def predicted_ten target_0 target_1)

lemma batch_ten:
  "batch_correct ten_params [(blank_image, t), (blank_image, u)]
     = Inr (length (filter (matches ten_params) [(blank_image, t), (blank_image, u)]))"
  if "t \<in> {0, 1}" "u \<in> {0, 1}"
proof -
  have r: "reshape_784 [blank_image, blank_image] = Inr [blank_image, blank_image]"
    using reshape_blank [of 2] by (simp add: numeral_2_eq_2)
  have t: "argmax_axis1 (one_hot [t, u] num_classes)
             = Inr [if t = 0 then 0 else 1, if u = 0 then 0 else 1]"
    using target_0 target_1 that
    by (auto simp add: argmax_axis1_def one_hot_def target_class_of_def)
  have f: "batch_forward ten_params [blank_image, blank_image]
            = Inr [map (\<lambda>l. l - logsumexp ten_logits) ten_logits,
                   map (\<lambda>l. l - logsumexp ten_logits) ten_logits]"
    by (simp add: batch_forward_def forward_ten)
  have p: "argmax_axis1 [map (\<lambda>l. l - logsumexp ten_logits) ten_logits,
                         map (\<lambda>l. l - logsumexp ten_logits) ten_logits] = Inr [0, 0]"
    by (simp add: argmax_axis1_def ten_logits_def)
  show ?thesis using that by (auto simp add: batch_correct_def r t f p matches_ten)
qed

lemma accuracy_ten: "accuracy ten_params tiny_loader = Inr (1 / 2)"
  by (simp add: accuracy_def tiny_loader_def batch_ten dataset_len_def matches_ten)

lemma accuracy_ten_test:
  "accuracy ten_params [[(blank_image, 0), (blank_image, 0)]] = Inr 1"
  by (simp add: accuracy_def batch_ten dataset_len_def matches_ten)

lemma one_hot_01:
  "one_hot [0, 1] num_classes = [[1, 0, 0, 0, 0, 0, 0, 0, 0, 0], [0, 1, 0, 0, 0, 0, 0, 0, 0, 0]]"
  by (simp add: one_hot_def num_classes_def upt_rec)

lemma loss_ten:
  "loss ten_params [blank_image, blank_image] (one_hot [0, 1] num_classes)
     = Inr (2 * logsumexp ten_logits - 1)"
  by (simp add: loss_def batch_forward_def forward_ten one_hot_01 broadcast2_rows_def
      broadcast2_def ten_logits_def)


lemma ten_env_sel:
  "get_params ten_env s = ten_params"
  "opt_update ten_env i g s = s + 1"
  "train_loader ten_env = tiny_loader"
  "test_loader ten_env = [[(blank_image, 0), (blank_image, 0)]]"
  "epoch_time ten_env e = 1"
  by (simp_all add: ten_env_def)

lemma ten_batch_input:
  "batch_input ''MLP'' [(blank_image, t), (blank_image, u)]
     = Inr (Flattened [blank_image, blank_image])"
  using reshape_blank [of 2] by (simp add: batch_input_def numeral_2_eq_2)

lemma ten_loss_on:
  "loss_on ten_env ten_params (Flattened [blank_image, blank_image]) (one_hot [0, 1] num_classes)
     = Inr (2 * logsumexp ten_logits - 1)"
  by (simp add: loss_on_def loss_ten)

lemma ten_update:
  "update ten_env ten_params (Flattened [blank_image, blank_image])
     (one_hot [0, 1] num_classes) s
   = Inr (ten_params, s + 1, 2 * logsumexp ten_logits - 1)"
  by (simp add: update_def ten_loss_on ten_env_sel)

lemma ten_train_batches:
  "train_batches ten_env ''MLP'' tiny_loader
     \<lparr>st_params = ten_params, st_opt_state = s, train_loss = ls,
      log_acc_train = as, log_acc_test = bs, printed = out\<rparr>
   = Inr \<lparr>st_params = ten_params, st_opt_state = s + 2,
          train_loss = ls @ [2 * logsumexp ten_logits - 1,
                             2 * logsumexp ten_logits - 1],
          log_acc_train = as, log_acc_test = bs, printed = out\<rparr>"
  by (simp add: tiny_loader_def ten_batch_input ten_update)

lemma ten_status_line:
  "status_line ten_env (Suc 0) 1 (1 / 2) 1
     = ''Epoch 1 | T: 1.00 | Train A: 0.500 | Test A: 1.000''"
  "status_line ten_env (Suc (Suc 0)) 1 (1 / 2) 1
     = ''Epoch 2 | T: 1.00 | Train A: 0.500 | Test A: 1.000''"
  by (simp_all add: status_line_def ten_env_def)

lemma ten_epoch:
  "run_epoch ten_env ''MLP'' e
     \<lparr>st_params = ten_params, st_opt_state = s, train_loss = ls,
      log_acc_train = as, log_acc_test = bs, printed = out\<rparr>
   = Inr \<lparr>st_params = ten_params, st_opt_state = s + 2,
          train_loss = ls @ [2 * logsumexp ten_logits - 1,
                             2 * logsumexp ten_logits - 1],
          log_acc_train = as @ [1 / 2], log_acc_test = bs @ [1],
          printed = out @ [status_line ten_env (e + 1) 1 (1 / 2) 1]\<rparr>"
  by (simp add: run_epoch_def ten_env_sel ten_train_batches accuracy_ten accuracy_ten_test)

lemma ten_run:
  "run_mnist_training_loop ten_env 2 0 ''MLP'' =
     Inr \<lparr>st_params = ten_params, st_opt_state = 4,
          train_loss = [2 * logsumexp ten_logits - 1,
                        2 * logsumexp ten_logits - 1,
                        2 * logsumexp ten_logits - 1,
                        2 * logsumexp ten_logits - 1],
          log_acc_train = [1 / 2, 1 / 2, 1 / 2], log_acc_test = [1, 1, 1],
          printed = [''Epoch 1 | T: 1.00 | Train A: 0.500 | Test A: 1.000'',
                     ''Epoch 2 | T: 1.00 | Train A: 0.500 | Test A: 1.000'']\<rparr>"
  by (simp add: run_mnist_training_loop_def ten_env_sel accuracy_ten accuracy_ten_test
      upt_small ten_epoch ten_status_line)

text \<open>
  Two epochs over the two batches of \<open>tiny_loader\<close> with the ten-class network: each
  batch has the loss \<open>2 * logsumexp ten_logits - 1\<close> (one image of class 0, one of
  class 1).
\<close>

theorem accuracy_logged_before_first_epoch_witness:
  "run_mnist_training_loop ten_env 2 0 ''MLP'' =
     Inr \<lparr>st_params = ten_params, st_opt_state = 4,
          train_loss = [2 * logsumexp ten_logits - 1,
                        2 * logsumexp ten_logits - 1,
                        2 * logsumexp ten_logits - 1,
                        2 * logsumexp ten_logits - 1],
          log_acc_train = [1 / 2, 1 / 2, 1 / 2], log_acc_test = [1, 1, 1],
          printed = [''Epoch 1 | T: 1.00 | Train A: 0.500 | Test A: 1.000'',
                     ''Epoch 2 | T: 1.00 | Train A: 0.500 | Test A: 1.000'']\<rparr>
   \<and> length [1 / 2, 1 / 2, 1 / 2 :: real] = 2 + 1
   \<and> length [1, 1, 1 :: real] = 2 + 1
   \<and> accuracy (get_params ten_env 0) (train_loader ten_env) = Inr (1 / 2)
   \<and> accuracy (get_params ten_env 0) (test_loader ten_env) = Inr 1"
  using accuracy_logged_before_first_epoch [OF ten_run] ten_run by simp


end
